theory Spec2Isabelle
  imports Main "HOL-Library.Char_ord" "HOL-Library.List_Lexorder" "HOL-Library.Multiset"
begin

section \<open>The string and path functions of the Python library that logviewer.py calls\<close>

text \<open>
  A Python \<open>str\<close> is modelled as a \<open>string\<close>; a \<open>char\<close> stands for a code point
  below 256. \<open>str.isspace\<close>, \<open>str.lower\<close>, \<open>str.split()\<close>, \<open>str.replace\<close>,
  \<open>posixpath.join\<close> and \<open>posixpath.basename\<close> are written out, since the claims depend
  on what they compute.
\<close>

definition isspace :: "char \<Rightarrow> bool" where
  "isspace c =
     (let n = (of_char c :: nat)
      in (9 \<le> n \<and> n \<le> 13) \<or> (28 \<le> n \<and> n \<le> 32) \<or> n = 133 \<or> n = 160)"

definition lower_char :: "char \<Rightarrow> char" where
  "lower_char c =
     (let n = (of_char c :: nat)
      in if (65 \<le> n \<and> n \<le> 90) \<or> (192 \<le> n \<and> n \<le> 222 \<and> n \<noteq> 215)
         then char_of (n + 32) else c)"

definition lower :: "string \<Rightarrow> string" where
  "lower s = map lower_char s"

text \<open>\<open>line.split()\<close>: the maximal runs of non-whitespace characters, in order.
  \<open>split_ws cur s\<close> carries the token being read.\<close>

fun split_ws :: "string \<Rightarrow> string \<Rightarrow> string list" where
  "split_ws cur [] = (if cur = [] then [] else [cur])"
| "split_ws cur (c # cs) =
     (if isspace c
      then (if cur = [] then split_ws [] cs else cur # split_ws [] cs)
      else split_ws (cur @ [c]) cs)"

definition split :: "string \<Rightarrow> string list" where
  "split line = split_ws [] line"

text \<open>\<open>s.replace(old, new)\<close>: every non-overlapping occurrence of \<open>old\<close>, from the left.\<close>

function replace :: "string \<Rightarrow> string \<Rightarrow> string \<Rightarrow> string" where
  "replace old new s =
     (if old = [] then new @ concat (map (\<lambda>c. c # new) s)
      else if s = [] then []
      else if take (length old) s = old then new @ replace old new (drop (length old) s)
      else hd s # replace old new (tl s))"
  by pat_completeness auto
termination
  by (relation "measure (\<lambda>(old, new, s). length s)") auto

declare replace.simps [simp del]

text \<open>\<open>posixpath.join(a, *p)\<close>: a component that starts with a slash discards what came
  before it; otherwise one slash separates it from a non-empty path that does not end in
  one.\<close>

definition join2 :: "string \<Rightarrow> string \<Rightarrow> string" where
  "join2 path b =
     (if b \<noteq> [] \<and> hd b = CHR ''/'' then b
      else if path = [] \<or> last path = CHR ''/'' then path @ b
      else path @ ''/'' @ b)"

definition path_join :: "string \<Rightarrow> string list \<Rightarrow> string" where
  "path_join a p = foldl join2 a p"

text \<open>\<open>posixpath.basename(p)\<close>: what follows the last slash.\<close>

definition basename :: "string \<Rightarrow> string" where
  "basename p = rev (takeWhile (\<lambda>c. c \<noteq> CHR ''/'') (rev p))"

section \<open>The world outside the plugin\<close>

text \<open>
  What the plugin reads from its host and from the operating system, as one record:
  \<^item> \<open>home\<close>: the value of \<open>os.path.expanduser("~")\<close>;
  \<^item> \<open>net_name\<close>, \<open>user_name\<close>: \<open>module.GetNetwork().GetName()\<close> and
    \<open>module.GetUser().GetUserName()\<close>;
  \<^item> \<open>isfile\<close>, \<open>isdir\<close>: \<open>os.path.isfile\<close>, \<open>os.path.isdir\<close>;
  \<^item> \<open>glob\<close>: \<open>glob.glob\<close>, the paths that match a pattern, in enumeration order;
  \<^item> \<open>read_bytes\<close>: the bytes that opening the file and reading it delivers (a
    \<open>char\<close> for each byte), and the text of the exception that ended the reading, if
    one did (\<open>open\<close> itself failing is no byte and an exception);
  \<^item> \<open>decode\<close>: the codec named by \<open>sys.getdefaultencoding()\<close> with
    \<open>errors='replace'\<close>, which turns bytes into text and never raises;
  \<^item> \<open>re_compile\<close>: \<open>re.compile\<close>, either the text of the exception or the compiled
    pattern's \<open>search(line) is not None\<close>.
\<close>

record world =
  home :: string
  net_name :: string
  user_name :: string
  isfile :: "string \<Rightarrow> bool"
  isdir :: "string \<Rightarrow> bool"
  glob :: "string \<Rightarrow> string list"
  read_bytes :: "string \<Rightarrow> string \<times> string option"
  decode :: "string \<Rightarrow> string"
  re_compile :: "string \<Rightarrow> string + (string \<Rightarrow> bool)"

text \<open>
  A file opened with mode \<open>'r'\<close> and no \<open>newline\<close> argument is read with universal
  newlines: in the decoded text every CR LF and every CR alone becomes LF
  (\<open>universal_newlines\<close>, whose flag says that the character before was a CR), and
  \<open>for line in f\<close> yields the text cut after each LF, the LF kept (\<open>keepends\<close>, which
  carries the line being read); what follows the last LF is a line too when it is not
  empty.
\<close>

fun universal_newlines :: "bool \<Rightarrow> string \<Rightarrow> string" where
  "universal_newlines after_cr [] = []"
| "universal_newlines after_cr (c # cs) =
     (if c = CHR 0x0D then CHR 0x0A # universal_newlines True cs
      else if c = CHR 0x0A \<and> after_cr then universal_newlines False cs
      else c # universal_newlines False cs)"

fun keepends :: "string \<Rightarrow> string \<Rightarrow> string list" where
  "keepends cur [] = (if cur = [] then [] else [cur])"
| "keepends cur (c # cs) =
     (if c = CHR 0x0A then (cur @ [c]) # keepends [] cs else keepends (cur @ [c]) cs)"

definition text_lines :: "string \<Rightarrow> string list" where
  "text_lines t = keepends [] (universal_newlines False t)"

text \<open>When an exception ends the reading, the loop has had the lines that were complete
  in the text delivered so far: a CR at the very end is held back by the reader, which
  waits for the LF that may follow, and a line without its end is not yielded.\<close>

definition lines_before_error :: "string \<Rightarrow> string list" where
  "lines_before_error t =
     filter (\<lambda>l. l \<noteq> [] \<and> last l = CHR 0x0A)
       (text_lines (if t \<noteq> [] \<and> last t = CHR 0x0D then butlast t else t))"

text \<open>\<open>readlines\<close>: the lines that \<open>for line in f\<close> yields for the file at a path, and
  the text of the exception that ended the loop, if one did.\<close>

definition readlines :: "world \<Rightarrow> string \<Rightarrow> string list \<times> string option" where
  "readlines w path =
     (case read_bytes w path of
        (bs, None) \<Rightarrow> (text_lines (decode w bs), None)
      | (bs, Some e) \<Rightarrow> (lines_before_error (decode w bs), Some e))"

datatype error = NameError string | IndexError string | AttributeError string

fun str_of_error :: "error \<Rightarrow> string" where
  "str_of_error (NameError s) = s"
| "str_of_error (IndexError s) = s"
| "str_of_error (AttributeError s) = s"

section \<open>IrcLogPathBuilder and IrcLog\<close>

record IrcLogPathBuilder =
  pb_network :: string
  pb_user :: string

definition getBasePath :: "string \<Rightarrow> IrcLogPathBuilder \<Rightarrow> string" where
  "getBasePath hm pb =
     path_join hm [''.znc'', ''users'', pb_user pb, ''moddata'', ''log'', pb_network pb]"

definition GetLogPath :: "string \<Rightarrow> IrcLogPathBuilder \<Rightarrow> string \<Rightarrow> string \<Rightarrow> string" where
  "GetLogPath hm pb window date = path_join (getBasePath hm pb) [window, date @ ''.log'']"

definition GetLogsDates :: "world \<Rightarrow> IrcLogPathBuilder \<Rightarrow> string \<Rightarrow> string list" where
  "GetLogsDates w pb window =
     (let aPath = path_join (getBasePath (home w) pb) [window, ''*.log'']
      in map (\<lambda>fn. replace ''.log'' '''' (basename fn)) (glob w aPath))"

definition GetWinList :: "world \<Rightarrow> IrcLogPathBuilder \<Rightarrow> string list" where
  "GetWinList w pb =
     (let aPath = path_join (getBasePath (home w) pb) [''*'']
      in map basename (filter (isdir w) (glob w aPath)))"

record IrcLog =
  log_network :: string
  log_user :: string
  log_window :: string
  log_date :: string
  log_path :: string

definition IrcLog_init :: "string \<Rightarrow> string \<Rightarrow> string \<Rightarrow> string \<Rightarrow> string \<Rightarrow> IrcLog" where
  "IrcLog_init hm network user window date =
     \<lparr>log_network = network, log_user = user, log_window = window, log_date = date,
      log_path = GetLogPath hm \<lparr>pb_network = network, pb_user = user\<rparr> window date\<rparr>"

definition Exists :: "world \<Rightarrow> IrcLog \<Rightarrow> bool" where
  "Exists w l = isfile w (log_path l)"

section \<open>The command handlers\<close>

text \<open>
  A handler is an object of one of the four subclasses of \<open>AbstractLogViewerCommand\<close>:
  the three strings its constructor sets, and the class that fixes \<open>_DoPerform\<close>.
  Every function below returns the lines it hands to \<open>PutModule\<close>, in order.
\<close>

datatype cmd_class = LogCat | LogGrep | LogDates | LogWindows

record command =
  cmd_command :: string
  cmd_description :: string
  cmd_argsStr :: string
  cmd_class :: cmd_class

definition LogCatCommand :: command where
  "LogCatCommand =
     \<lparr>cmd_command = ''LogCat'',
      cmd_description = ''View log file for window and date (current network).'',
      cmd_argsStr = ''<window> <date>'', cmd_class = LogCat\<rparr>"

definition LogGrepCommand :: command where
  "LogGrepCommand =
     \<lparr>cmd_command = ''LogGrep'',
      cmd_description = ''Grep log file for window and date (current network) with regex.'',
      cmd_argsStr = ''<window> <date> <regex>'', cmd_class = LogGrep\<rparr>"

definition LogDatesCommand :: command where
  "LogDatesCommand =
     \<lparr>cmd_command = ''LogDates'',
      cmd_description = ''List all available dates for window.'',
      cmd_argsStr = ''<window>'', cmd_class = LogDates\<rparr>"

definition LogWindowsCommand :: command where
  "LogWindowsCommand =
     \<lparr>cmd_command = ''LogWindows'',
      cmd_description = ''List all available windows.'',
      cmd_argsStr = '''', cmd_class = LogWindows\<rparr>"

definition GetName :: "command \<Rightarrow> string" where
  "GetName c = cmd_command c"

definition GetDescription :: "command \<Rightarrow> string" where
  "GetDescription c = cmd_description c"

definition GetArgumentString :: "command \<Rightarrow> string" where
  "GetArgumentString c = cmd_argsStr c"

definition PrintErr :: "string \<Rightarrow> string list" where
  "PrintErr s = [''ERROR: '' @ s]"

definition Describe :: "command \<Rightarrow> string" where
  "Describe c = GetName c @ '' - '' @ GetDescription c"

definition Help :: "command \<Rightarrow> string list" where
  "Help c = [GetName c @ '' '' @ GetArgumentString c, GetDescription c]"

text \<open>The \<open>for line in f\<close> loop under \<open>try\<close>: the lines printed before an exception stay
  printed, and the handler prints the exception after them.\<close>

definition print_lines :: "(string \<Rightarrow> bool) \<Rightarrow> string list \<times> string option \<Rightarrow> string list" where
  "print_lines keep r =
     (case r of
        (ls, None) \<Rightarrow> filter keep ls
      | (ls, Some e) \<Rightarrow> filter keep ls @ PrintErr e)"

definition showLog :: "world \<Rightarrow> string \<Rightarrow> string \<Rightarrow> string list" where
  "showLog w window date =
     (let aIrcLog = IrcLog_init (home w) (net_name w) (user_name w) window date
      in if \<not> Exists w aIrcLog
         then PrintErr (''No such log file for '' @ window @ '' on '' @ date
                         @ '' ('' @ log_path aIrcLog @ '')'')
         else (''Content of '' @ log_path aIrcLog @ '':'')
              # print_lines (\<lambda>line. True) (readlines w (log_path aIrcLog)))"

definition grepLog :: "world \<Rightarrow> string \<Rightarrow> string \<Rightarrow> string \<Rightarrow> string list" where
  "grepLog w window date regex =
     (let aIrcLog = IrcLog_init (home w) (net_name w) (user_name w) window date
      in if \<not> Exists w aIrcLog
         then PrintErr (''No such log file for '' @ window @ '' on '' @ date
                         @ '' ('' @ log_path aIrcLog @ '')'')
         else (''Content of '' @ log_path aIrcLog @ '' matching '' @ regex @ '':'')
              # (case re_compile w regex of
                   Inl e \<Rightarrow> PrintErr e
                 | Inr search \<Rightarrow> print_lines search (readlines w (log_path aIrcLog))))"

text \<open>\<open>listDates\<close> and \<open>listWindows\<close> are what \<open>LogDatesCommand._DoPerform\<close> and
  \<open>LogWindowsCommand._DoPerform\<close> do once the number of arguments is right; \<open>DoPerform\<close>
  below is \<open>_DoPerform\<close> of the four classes, with the check of that number first.\<close>

definition listDates :: "world \<Rightarrow> string \<Rightarrow> string list" where
  "listDates w aWindow =
     (let aDates = GetLogsDates w \<lparr>pb_network = net_name w, pb_user = user_name w\<rparr> aWindow
      in if length aDates > 0
         then (''List of all available log date for window '' @ aWindow @ '':'') # sort aDates
         else PrintErr (''No such logs for window '' @ aWindow))"

definition listWindows :: "world \<Rightarrow> string list" where
  "listWindows w =
     (let aWins = GetWinList w \<lparr>pb_network = net_name w, pb_user = user_name w\<rparr>
      in if length aWins > 0
         then ''List of all available windows:'' # sort aWins
         else PrintErr ''No such windows logs'')"

fun DoPerform :: "world \<Rightarrow> command \<Rightarrow> string list \<Rightarrow> string list" where
  "DoPerform w c args =
     (case cmd_class c of
        LogCat \<Rightarrow> (if length args \<noteq> 2 then Help c else showLog w (args ! 0) (args ! 1))
      | LogGrep \<Rightarrow>
          (if length args \<noteq> 3 then Help c else grepLog w (args ! 0) (args ! 1) (args ! 2))
      | LogDates \<Rightarrow> (if length args \<noteq> 1 then Help c else listDates w (args ! 0))
      | LogWindows \<Rightarrow> (if length args \<noteq> 0 then Help c else listWindows w))"

text \<open>\<open>Perform\<close> receives \<open>None\<close> or a list of tokens.\<close>

definition Perform :: "world \<Rightarrow> command \<Rightarrow> string list option \<Rightarrow> string list" where
  "Perform w c args =
     (case args of
        Some (a # as) \<Rightarrow> if lower a = ''help'' then Help c else DoPerform w c (a # as)
      | Some [] \<Rightarrow> DoPerform w c []
      | None \<Rightarrow> DoPerform w c [])"

section \<open>LogViewerCommandDispatcher and the module\<close>

text \<open>The dictionary \<open>__commands\<close> keeps insertion order, which \<open>help\<close> prints: an
  association list, new keys at the end.\<close>

type_synonym commands = "(string \<times> command) list"

definition AddCommand :: "commands \<Rightarrow> command \<Rightarrow> error + commands" where
  "AddCommand cmds c =
     (if map_of cmds (lower (GetName c)) \<noteq> None
      then Inl (NameError ''command already registered'')
      else Inr (cmds @ [(lower (GetName c), c)]))"

text \<open>The token handed to the handler: \<open>None\<close> unless there is a second token.\<close>

definition cmdArgs :: "string list \<Rightarrow> string list option" where
  "cmdArgs args = (if length args > 1 then Some (tl args) else None)"

definition Dispatch :: "world \<Rightarrow> commands \<Rightarrow> string \<Rightarrow> error + string list" where
  "Dispatch w cmds line =
     (case split line of
        [] \<Rightarrow> Inl (IndexError ''list index out of range'')
      | a0 # rest \<Rightarrow>
          (case map_of cmds (lower a0) of
             Some c \<Rightarrow> Inr (Perform w c (cmdArgs (a0 # rest)))
           | None \<Rightarrow>
               if lower a0 = ''help''
               then Inr ([''View and search logs.'', ''---------------------'',
                          ''Available commands: '']
                         @ map (\<lambda>(k, aCmd). Describe aCmd) cmds
                         @ [''Use '' @ [CHR 0x22] @ ''<command> help'' @ [CHR 0x22]
                            @ '' for usage info.''])
               else Inr [''Command not found: '' @ a0,
                         ''Use Help for list of available commands'']))"

text \<open>The body of \<open>try\<close> in \<open>OnLoad\<close>: the handlers are added one after the other to the
  dictionary of the new dispatcher; the first exception ends it, and what was added
  before stays in the dictionary.\<close>

fun AddCommands :: "commands \<Rightarrow> command list \<Rightarrow> commands \<times> error option" where
  "AddCommands cmds [] = (cmds, None)"
| "AddCommands cmds (c # cs) =
     (case AddCommand cmds c of
        Inl e \<Rightarrow> (cmds, Some e)
      | Inr cmds' \<Rightarrow> AddCommands cmds' cs)"

record logviewer =
  cmdDispatcher :: "commands option"

text \<open>\<open>OnLoad_with\<close> is \<open>OnLoad\<close> with the list of handlers it registers as a parameter;
  it returns the module, the text left in \<open>message.s\<close> and the value returned.\<close>

definition OnLoad_with ::
  "command list \<Rightarrow> logviewer \<Rightarrow> string \<Rightarrow> logviewer \<times> string \<times> bool" where
  "OnLoad_with handlers m message =
     (case AddCommands [] handlers of
        (cmds, Some e) \<Rightarrow> (m\<lparr>cmdDispatcher := Some cmds\<rparr>, ''Error: '' @ str_of_error e, False)
      | (cmds, None) \<Rightarrow> (m\<lparr>cmdDispatcher := Some cmds\<rparr>, message, True))"

definition OnLoad :: "logviewer \<Rightarrow> string \<Rightarrow> logviewer \<times> string \<times> bool" where
  "OnLoad m message =
     OnLoad_with [LogCatCommand, LogGrepCommand, LogDatesCommand, LogWindowsCommand] m message"

definition OnModCommand :: "world \<Rightarrow> logviewer \<Rightarrow> string \<Rightarrow> error + (string list \<times> bool)" where
  "OnModCommand w m line =
     (case cmdDispatcher m of
        None \<Rightarrow>
          Inl (AttributeError
                 ([CHR 0x27] @ ''logviewer'' @ [CHR 0x27] @ '' object has no attribute ''
                  @ [CHR 0x27] @ ''_logviewer__cmdDispatcher'' @ [CHR 0x27]))
      | Some cmds \<Rightarrow>
          (case Dispatch w cmds line of
             Inl e \<Rightarrow> Inl e
           | Inr out \<Rightarrow> Inr (out, True)))"

section \<open>A concrete world\<close>

text \<open>
  The scenario of the specification: user \<open>alice\<close> on network \<open>libera\<close>, one window
  \<open>#chan\<close> with the logs of two days (the directory lists the later one first), a second
  window \<open>#alpha\<close> without logs, and a plain file beside the two window directories.
  Its regular expressions are the literal ones: a pattern without a metacharacter is
  searched as a substring, and \<open>(\<close> does not compile. Its files hold ASCII bytes, which
  the codec leaves as they are; the log of the second day cannot be opened.
\<close>

fun literal_search :: "string \<Rightarrow> string \<Rightarrow> bool" where
  "literal_search p [] = (p = [])"
| "literal_search p (c # cs) = (take (length p) (c # cs) = p \<or> literal_search p cs)"

definition scenario :: world where
  "scenario =
     \<lparr>home = ''/home/znc'', net_name = ''libera'', user_name = ''alice'',
      isfile = (\<lambda>p. p = ''/home/znc/.znc/users/alice/moddata/log/libera/#chan/2023-01-01.log''
                   \<or> p = ''/home/znc/.znc/users/alice/moddata/log/libera/#chan/2023-01-02.log''
                   \<or> p = ''/home/znc/.znc/users/alice/moddata/log/libera/notes.txt''),
      isdir = (\<lambda>p. p = ''/home/znc/.znc/users/alice/moddata/log/libera/#chan''
                  \<or> p = ''/home/znc/.znc/users/alice/moddata/log/libera/#alpha''),
      glob = (\<lambda>pat.
        if pat = ''/home/znc/.znc/users/alice/moddata/log/libera/#chan/*.log''
        then [''/home/znc/.znc/users/alice/moddata/log/libera/#chan/2023-01-02.log'',
              ''/home/znc/.znc/users/alice/moddata/log/libera/#chan/2023-01-01.log'']
        else if pat = ''/home/znc/.znc/users/alice/moddata/log/libera/*''
        then [''/home/znc/.znc/users/alice/moddata/log/libera/#chan'',
              ''/home/znc/.znc/users/alice/moddata/log/libera/notes.txt'',
              ''/home/znc/.znc/users/alice/moddata/log/libera/#alpha'']
        else []),
      read_bytes = (\<lambda>p.
        if p = ''/home/znc/.znc/users/alice/moddata/log/libera/#chan/2023-01-01.log''
        then (''foo bar'' @ [CHR 0x0A] @ ''baz'' @ [CHR 0x0A], None)
        else if p = ''/home/znc/.znc/users/alice/moddata/log/libera/#chan/2023-01-02.log''
        then ([], Some (''[Errno 13] Permission denied: '' @ [CHR 0x27] @ p @ [CHR 0x27]))
        else ([], Some (''[Errno 2] No such file or directory: ''
                         @ [CHR 0x27] @ p @ [CHR 0x27]))),
      decode = (\<lambda>bs. bs),
      re_compile = (\<lambda>pat.
        if pat = ''(''
        then Inl ''missing ), unterminated subpattern at position 0''
        else Inr (literal_search pat))\<rparr>"

text \<open>The same world with nothing under the log root.\<close>

definition no_windows :: world where
  "no_windows = scenario\<lparr>isfile := (\<lambda>p. False), isdir := (\<lambda>p. False), glob := (\<lambda>pat. [])\<rparr>"

text \<open>The same world where the directory of \<open>#chan\<close> holds one file,
  \<open>2023-01-01.login.log\<close>.\<close>

definition login_log :: world where
  "login_log = scenario
     \<lparr>isfile := (\<lambda>p.
        p = ''/home/znc/.znc/users/alice/moddata/log/libera/#chan/2023-01-01.login.log''),
      glob := (\<lambda>pat.
        if pat = ''/home/znc/.znc/users/alice/moddata/log/libera/#chan/*.log''
        then [''/home/znc/.znc/users/alice/moddata/log/libera/#chan/2023-01-01.login.log'']
        else [])\<rparr>"


text \<open>The date stem in the words of the specification: the basename of the file with
  the extension \<open>.log\<close> at its end taken off, and nothing else.\<close>

definition spec_date_stem :: "string \<Rightarrow> string" where
  "spec_date_stem fn =
     (let b = basename fn
      in if length b \<ge> 4 \<and> drop (length b - 4) b = ''.log'' then take (length b - 4) b else b)"

text \<open>The module as \<open>OnLoad\<close> leaves it.\<close>

definition loaded :: logviewer where
  "loaded = fst (OnLoad \<lparr>cmdDispatcher = None\<rparr> [])"

section \<open>Facts about the library functions\<close>

lemma split_ws_blank: "\<forall>c\<in>set s. isspace c \<Longrightarrow> split_ws [] s = []"
  by (induction s) auto

lemma Dispatch_blank:
  "\<forall>c\<in>set line. isspace c \<Longrightarrow>
     Dispatch w cmds line = Inl (IndexError ''list index out of range'')"
  by (simp add: Dispatch_def split_def split_ws_blank)

lemma loaded_eq:
  "loaded = \<lparr>cmdDispatcher = Some [(''logcat'', LogCatCommand), (''loggrep'', LogGrepCommand),
      (''logdates'', LogDatesCommand), (''logwindows'', LogWindowsCommand)]\<rparr>"
  by code_simp

lemma OnLoad_succeeds: "snd (OnLoad m message) = (message, True)"
proof -
  have "AddCommands [] [LogCatCommand, LogGrepCommand, LogDatesCommand, LogWindowsCommand]
          = ([(''logcat'', LogCatCommand), (''loggrep'', LogGrepCommand),
              (''logdates'', LogDatesCommand), (''logwindows'', LogWindowsCommand)], None)"
    by code_simp
  then show ?thesis by (simp add: OnLoad_def OnLoad_with_def)
qed







section \<open>The path resolver\<close>

text \<open>
  Claim C9. For every user, network, window and date, \<open>GetLogPath\<close> is the join of the
  home directory, \<open>.znc\<close>, \<open>users\<close>, the user, \<open>moddata\<close>, \<open>log\<close>, the network, the
  window and the date followed by \<open>.log\<close>. It takes no file system: its arguments are
  the home directory, the builder (network and user) and the two tokens, which go into
  the join as they are.
\<close>

theorem GetLogPath_is_join:
  "GetLogPath hm \<lparr>pb_network = network, pb_user = user\<rparr> window date
     = path_join hm [''.znc'', ''users'', user, ''moddata'', ''log'', network, window,
                     date @ ''.log'']"
  by (simp add: GetLogPath_def getBasePath_def path_join_def)

text \<open>Nothing is filtered: a window of parent-directory steps leaves the log root.\<close>

lemma GetLogPath_parent_steps:
  "GetLogPath ''/home/znc'' \<lparr>pb_network = ''libera'', pb_user = ''alice''\<rparr>
      ''../../../../bob/moddata/log/libera/#chan'' ''2023-01-01''
     = ''/home/znc/.znc/users/alice/moddata/log/libera/../../../../bob/moddata/log/libera/#chan/2023-01-01.log''"
  by (simp add: GetLogPath_def getBasePath_def path_join_def join2_def)

text \<open>
  Claim C5. \<open>GetLogsDates\<close> returns, for each file that matches \<open>*.log\<close> in the
  directory of the window, the basename with the extension at its end stripped and
  nothing else removed. The code removes every occurrence of \<open>.log\<close>: for the file
  \<open>2023-01-01.login.log\<close> it returns \<open>2023-01-01in\<close>, where the stem is
  \<open>2023-01-01.login\<close>.
\<close>

theorem GetLogsDates_login_log:
  "glob login_log
     (path_join (getBasePath (home login_log) \<lparr>pb_network = ''libera'', pb_user = ''alice''\<rparr>)
        [''#chan'', ''*.log''])
     = [''/home/znc/.znc/users/alice/moddata/log/libera/#chan/2023-01-01.login.log'']
   \<and> GetLogsDates login_log \<lparr>pb_network = ''libera'', pb_user = ''alice''\<rparr> ''#chan''
     = [''2023-01-01in'']
   \<and> spec_date_stem
       ''/home/znc/.znc/users/alice/moddata/log/libera/#chan/2023-01-01.login.log''
     = ''2023-01-01.login''"
  by (simp add: GetLogsDates_def login_log_def scenario_def getBasePath_def path_join_def
      join2_def basename_def replace.simps spec_date_stem_def)

section \<open>The dispatcher\<close>

text \<open>
  Claim C1. On an empty line, and on a line of whitespace, \<open>Dispatch\<close> does not raise,
  and \<open>OnModCommand\<close> reports the line as handled. The code indexes the first token of
  an empty list of tokens: \<open>Dispatch\<close> raises IndexError, and \<open>OnModCommand\<close>, which
  does not catch it, raises too.
\<close>

theorem empty_line_raises:
  "Dispatch w cmds [] = Inl (IndexError ''list index out of range'')
   \<and> OnModCommand w loaded [] = Inl (IndexError ''list index out of range'')
   \<and> OnModCommand w loaded ''  '' = Inl (IndexError ''list index out of range'')"
  by (simp add: OnModCommand_def loaded_eq Dispatch_def split_def isspace_def)








text \<open>
  Claim C10. A registered verb alone on its line: the dispatcher hands \<open>None\<close> to
  \<open>Perform\<close>, \<open>Perform\<close> calls the action with the empty list, and a handler that needs
  an argument prints its usage text; nothing is raised.
\<close>

theorem bare_verb_prints_usage:
  assumes "split line = [verb]"
    and "map_of cmds (lower verb) = Some c"
    and "cmd_class c \<noteq> LogWindows"
  shows "cmdArgs (split line) = None
         \<and> Dispatch w cmds line = Inr (Perform w c None)
         \<and> Perform w c None = DoPerform w c []
         \<and> DoPerform w c [] = Help c"
  using assms by (cases "cmd_class c") (simp_all add: cmdArgs_def Dispatch_def Perform_def)

theorem bare_verb_prints_usage_witness:
  "split ''LOGGREP'' = [''LOGGREP'']
   \<and> map_of (the (cmdDispatcher loaded)) (lower ''LOGGREP'') = Some LogGrepCommand
   \<and> cmd_class LogGrepCommand \<noteq> LogWindows
   \<and> Dispatch scenario (the (cmdDispatcher loaded)) ''LOGGREP''
     = Inr [''LogGrep <window> <date> <regex>'',
            ''Grep log file for window and date (current network) with regex.'']"
proof -
  have t: "split ''LOGGREP'' = [''LOGGREP'']"
    by (simp add: split_def isspace_def)
  have l: "lower ''LOGGREP'' = ''loggrep''"
    by code_simp
  have r: "map_of (the (cmdDispatcher loaded)) (lower ''LOGGREP'') = Some LogGrepCommand"
    by (simp add: l loaded_eq)
  have k: "cmd_class LogGrepCommand \<noteq> LogWindows"
    by (simp add: LogGrepCommand_def)
  have u: "Help LogGrepCommand
             = [''LogGrep <window> <date> <regex>'',
                ''Grep log file for window and date (current network) with regex.'']"
    by (simp add: Help_def GetName_def GetArgumentString_def GetDescription_def
        LogGrepCommand_def)
  show ?thesis
    using t r k u bare_verb_prints_usage [OF t r k, of scenario] by simp
qed

section \<open>The handlers that read a log\<close>

lemma scenario_log_path:
  "GetLogPath (home scenario) \<lparr>pb_network = net_name scenario, pb_user = user_name scenario\<rparr>
      ''#chan'' ''2023-01-01''
     = ''/home/znc/.znc/users/alice/moddata/log/libera/#chan/2023-01-01.log''"
  "GetLogPath (home scenario) \<lparr>pb_network = net_name scenario, pb_user = user_name scenario\<rparr>
      ''#chan'' ''2023-03-03''
     = ''/home/znc/.znc/users/alice/moddata/log/libera/#chan/2023-03-03.log''"
  "GetLogPath (home scenario) \<lparr>pb_network = net_name scenario, pb_user = user_name scenario\<rparr>
      ''#chan'' ''2023-01-02''
     = ''/home/znc/.znc/users/alice/moddata/log/libera/#chan/2023-01-02.log''"
  by (simp_all add: scenario_def GetLogPath_def getBasePath_def path_join_def join2_def)






text \<open>
  Claim C3, as the code has it. When the log file of a window and a date does not exist,
  \<open>LogCat\<close> and \<open>LogGrep\<close> print one line and nothing else:
  \<open>ERROR: No such log file for <window> on <date> (<path>)\<close>, with the path that the
  resolver computed. The line goes through \<open>PrintErr\<close>, which puts \<open>ERROR: \<close> first.
\<close>

theorem missing_log_message:
  assumes "\<not> isfile w (GetLogPath (home w) \<lparr>pb_network = net_name w, pb_user = user_name w\<rparr>
                          window date)"
  shows "showLog w window date
           = [''ERROR: No such log file for '' @ window @ '' on '' @ date @ '' (''
                @ GetLogPath (home w) \<lparr>pb_network = net_name w, pb_user = user_name w\<rparr>
                    window date @ '')'']
         \<and> grepLog w window date regex
           = [''ERROR: No such log file for '' @ window @ '' on '' @ date @ '' (''
                @ GetLogPath (home w) \<lparr>pb_network = net_name w, pb_user = user_name w\<rparr>
                    window date @ '')'']"
  using assms by (simp add: showLog_def grepLog_def IrcLog_init_def Exists_def PrintErr_def)

theorem missing_log_message_witness:
  "\<not> isfile scenario ''/home/znc/.znc/users/alice/moddata/log/libera/#chan/2023-03-03.log''
   \<and> showLog scenario ''#chan'' ''2023-03-03''
       = [''ERROR: No such log file for #chan on 2023-03-03 (/home/znc/.znc/users/alice/moddata/log/libera/#chan/2023-03-03.log)'']
   \<and> grepLog scenario ''#chan'' ''2023-03-03'' ''foo''
       = [''ERROR: No such log file for #chan on 2023-03-03 (/home/znc/.znc/users/alice/moddata/log/libera/#chan/2023-03-03.log)'']"
proof -
  have f: "\<not> isfile scenario
             ''/home/znc/.znc/users/alice/moddata/log/libera/#chan/2023-03-03.log''"
    by (simp add: scenario_def)
  show ?thesis
    using f missing_log_message [of scenario "''#chan''" "''2023-03-03''" "''foo''"]
    by (simp add: scenario_log_path)
qed

text \<open>The line printed is not the message without its prefix.\<close>

theorem missing_log_bare_message_counterexample:
  "\<not> Exists scenario
       (IrcLog_init (home scenario) (net_name scenario) (user_name scenario)
          ''#chan'' ''2023-03-03'')
   \<and> showLog scenario ''#chan'' ''2023-03-03''
       \<noteq> [''No such log file for #chan on 2023-03-03 (/home/znc/.znc/users/alice/moddata/log/libera/#chan/2023-03-03.log)'']
   \<and> grepLog scenario ''#chan'' ''2023-03-03'' ''foo''
       \<noteq> [''No such log file for #chan on 2023-03-03 (/home/znc/.znc/users/alice/moddata/log/libera/#chan/2023-03-03.log)'']"
  by (simp add: Exists_def IrcLog_init_def showLog_def grepLog_def scenario_log_path)
     (simp add: scenario_def PrintErr_def)




section \<open>The handlers that list\<close>

text \<open>
  Claim C6, as the code has it. \<open>LogDates\<close> prints the header
  \<open>List of all available log date for window <window>:\<close> and then the dates that
  \<open>GetLogsDates\<close> returned, sorted ascending; \<open>LogWindows\<close> prints the header
  \<open>List of all available windows:\<close> and then the windows that \<open>GetWinList\<close> returned,
  sorted ascending, which are the basenames of the entries matched under the log root
  that are directories. Sorting keeps every entry, as often as it occurs. When the list
  is empty, the one line printed is \<open>ERROR: No such logs for window <window>\<close>, or
  \<open>ERROR: No such windows logs\<close>.
\<close>

theorem listings_sorted:
  assumes "cmd_class cd = LogDates" and "cmd_class cw = LogWindows"
    and "ds = GetLogsDates w \<lparr>pb_network = net_name w, pb_user = user_name w\<rparr> window"
    and "ws = GetWinList w \<lparr>pb_network = net_name w, pb_user = user_name w\<rparr>"
  shows "(ds \<noteq> [] \<longrightarrow>
            DoPerform w cd [window]
              = (''List of all available log date for window '' @ window @ '':'') # sort ds)
         \<and> (ds = [] \<longrightarrow>
            DoPerform w cd [window] = [''ERROR: No such logs for window '' @ window])
         \<and> (ws \<noteq> [] \<longrightarrow> DoPerform w cw [] = ''List of all available windows:'' # sort ws)
         \<and> (ws = [] \<longrightarrow> DoPerform w cw [] = [''ERROR: No such windows logs''])
         \<and> sorted (sort ds) \<and> mset (sort ds) = mset ds
         \<and> sorted (sort ws) \<and> mset (sort ws) = mset ws
         \<and> mset ws
             = image_mset basename
                 (filter_mset (isdir w)
                    (mset (glob w
                       (path_join
                          (getBasePath (home w)
                             \<lparr>pb_network = net_name w, pb_user = user_name w\<rparr>)
                          [''*'']))))"
  using assms by (simp add: listDates_def listWindows_def PrintErr_def GetWinList_def)

lemma scenario_dates:
  "GetLogsDates scenario \<lparr>pb_network = net_name scenario, pb_user = user_name scenario\<rparr>
     ''#chan'' = [''2023-01-02'', ''2023-01-01'']"
  by (simp add: GetLogsDates_def scenario_def getBasePath_def path_join_def join2_def
      basename_def replace.simps)

lemma scenario_windows:
  "GetWinList scenario \<lparr>pb_network = net_name scenario, pb_user = user_name scenario\<rparr>
     = [''#chan'', ''#alpha'']"
  by (simp add: GetWinList_def scenario_def getBasePath_def path_join_def join2_def
      basename_def)

lemma no_windows_lists:
  "GetLogsDates no_windows
     \<lparr>pb_network = net_name no_windows, pb_user = user_name no_windows\<rparr> ''#chan'' = []"
  "GetWinList no_windows
     \<lparr>pb_network = net_name no_windows, pb_user = user_name no_windows\<rparr> = []"
  by (simp_all add: GetLogsDates_def GetWinList_def no_windows_def)

theorem listings_sorted_witness:
  "cmd_class LogDatesCommand = LogDates \<and> cmd_class LogWindowsCommand = LogWindows
   \<and> DoPerform scenario LogDatesCommand [''#chan'']
       = [''List of all available log date for window #chan:'', ''2023-01-01'', ''2023-01-02'']
   \<and> DoPerform scenario LogWindowsCommand []
       = [''List of all available windows:'', ''#alpha'', ''#chan'']
   \<and> DoPerform no_windows LogDatesCommand [''#chan'']
       = [''ERROR: No such logs for window #chan'']
   \<and> DoPerform no_windows LogWindowsCommand [] = [''ERROR: No such windows logs'']"
proof -
  have kd: "cmd_class LogDatesCommand = LogDates"
    by (simp add: LogDatesCommand_def)
  have kw: "cmd_class LogWindowsCommand = LogWindows"
    by (simp add: LogWindowsCommand_def)
  have s1: "sort [''2023-01-02'', ''2023-01-01''] = [''2023-01-01'', ''2023-01-02'']"
    by simp
  have s2: "sort [''#chan'', ''#alpha''] = [''#alpha'', ''#chan'']"
    by simp
  show ?thesis
    using kd kw
      listings_sorted [OF kd kw refl refl, of scenario "''#chan''"]
      listings_sorted [OF kd kw refl refl, of no_windows "''#chan''"]
    by (simp add: scenario_dates scenario_windows no_windows_lists s1 s2)
qed

text \<open>With no window, \<open>LogWindows\<close> does not print the message without its prefix; and
  with dates, \<open>LogDates\<close> does not print the sorted dates alone.\<close>

theorem listings_bare_message_counterexample:
  "GetWinList no_windows
     \<lparr>pb_network = net_name no_windows, pb_user = user_name no_windows\<rparr> = []
   \<and> DoPerform no_windows LogWindowsCommand [] \<noteq> [''No such windows logs'']
   \<and> GetLogsDates scenario
       \<lparr>pb_network = net_name scenario, pb_user = user_name scenario\<rparr> ''#chan''
       = [''2023-01-02'', ''2023-01-01'']
   \<and> DoPerform scenario LogDatesCommand [''#chan''] \<noteq> [''2023-01-01'', ''2023-01-02'']"
  by (simp add: no_windows_lists scenario_dates listWindows_def listDates_def
      LogWindowsCommand_def LogDatesCommand_def PrintErr_def)

section \<open>Case of the verb\<close>

text \<open>
  Claim C8, as the code has it. Two lines whose first tokens are equal once lower-cased
  and whose other tokens are the same select the same entry of the dictionary and hand
  the same arguments on. When the verb is registered, or is \<open>help\<close>, the two lines give
  the same output. When it is neither, the output is the not-found message, which quotes
  the first token as it was typed.
\<close>

theorem verb_case_insensitive:
  assumes "split l1 = v1 # rest" and "split l2 = v2 # rest" and "lower v1 = lower v2"
  shows "map_of cmds (lower v1) = map_of cmds (lower v2)
         \<and> cmdArgs (split l1) = cmdArgs (split l2)
         \<and> (map_of cmds (lower v1) \<noteq> None \<or> lower v1 = ''help''
              \<longrightarrow> Dispatch w cmds l1 = Dispatch w cmds l2)
         \<and> (map_of cmds (lower v1) = None \<and> lower v1 \<noteq> ''help''
              \<longrightarrow> Dispatch w cmds l1 = Inr [''Command not found: '' @ v1,
                                              ''Use Help for list of available commands''])"
  using assms by (auto simp: cmdArgs_def Dispatch_def split: option.splits)

theorem verb_case_insensitive_witness:
  "split ''logcat #chan 2023-01-01'' = ''logcat'' # [''#chan'', ''2023-01-01'']
   \<and> split ''LOGCAT  #chan   2023-01-01'' = ''LOGCAT'' # [''#chan'', ''2023-01-01'']
   \<and> lower ''logcat'' = lower ''LOGCAT''
   \<and> map_of (the (cmdDispatcher loaded)) (lower ''logcat'') \<noteq> None
   \<and> Dispatch scenario (the (cmdDispatcher loaded)) ''logcat #chan 2023-01-01''
       = Dispatch scenario (the (cmdDispatcher loaded)) ''LOGCAT  #chan   2023-01-01''
   \<and> split ''Foo'' = [''Foo''] \<and> split ''FOO'' = [''FOO''] \<and> lower ''Foo'' = lower ''FOO''
   \<and> map_of (the (cmdDispatcher loaded)) (lower ''Foo'') = None \<and> lower ''Foo'' \<noteq> ''help''
   \<and> Dispatch scenario (the (cmdDispatcher loaded)) ''Foo''
       = Inr [''Command not found: Foo'', ''Use Help for list of available commands'']"
proof -
  have t1: "split ''logcat #chan 2023-01-01'' = ''logcat'' # [''#chan'', ''2023-01-01'']"
    by (simp add: split_def isspace_def)
  have t2: "split ''LOGCAT  #chan   2023-01-01'' = ''LOGCAT'' # [''#chan'', ''2023-01-01'']"
    by (simp add: split_def isspace_def)
  have l1: "lower ''logcat'' = ''logcat''" and l2: "lower ''LOGCAT'' = ''logcat''"
    by code_simp+
  have l: "lower ''logcat'' = lower ''LOGCAT''"
    by (simp add: l1 l2)
  have r: "map_of (the (cmdDispatcher loaded)) (lower ''logcat'') \<noteq> None"
    by (simp add: l1 loaded_eq)
  have t3: "split ''Foo'' = [''Foo'']" and t4: "split ''FOO'' = [''FOO'']"
    by (simp_all add: split_def isspace_def)
  have l3: "lower ''Foo'' = ''foo''" and l4: "lower ''FOO'' = ''foo''"
    by code_simp+
  have l': "lower ''Foo'' = lower ''FOO''"
    by (simp add: l3 l4)
  have n: "map_of (the (cmdDispatcher loaded)) (lower ''Foo'') = None"
    by (simp add: l3 loaded_eq)
  have h: "lower ''Foo'' \<noteq> ''help''"
    by (simp add: l3)
  show ?thesis
    using t1 t2 l r t3 t4 l' n h
      verb_case_insensitive [OF t1 t2 l, of "the (cmdDispatcher loaded)" scenario]
      verb_case_insensitive [OF t3 t4 l', of "the (cmdDispatcher loaded)" scenario]
    by simp
qed

text \<open>For a verb that is not registered the outputs differ: each quotes its own
  spelling.\<close>

theorem unknown_verb_echo_counterexample:
  "split ''Foo'' = [''Foo''] \<and> split ''FOO'' = [''FOO''] \<and> lower ''Foo'' = lower ''FOO''
   \<and> OnModCommand scenario loaded ''Foo'' \<noteq> OnModCommand scenario loaded ''FOO''"
proof -
  have t3: "split ''Foo'' = [''Foo'']" and t4: "split ''FOO'' = [''FOO'']"
    by (simp_all add: split_def isspace_def)
  have l3: "lower ''Foo'' = ''foo''" and l4: "lower ''FOO'' = ''foo''"
    by code_simp+
  show ?thesis
    by (simp add: t3 t4 l3 l4 OnModCommand_def Dispatch_def loaded_eq)
qed

end
